theory Spec2Isabelle
  imports Complex_Main
begin

section \<open>The speed-test graph generator\<close>

text \<open>
  A shallow embedding of \<^verbatim>\<open>generate_speedtest_graph.py\<close>: the function \<^verbatim>\<open>main\<close> reads
  a file of JSON lines, turns every line into a measurement, sorts the measurements, converts
  their timestamps to a time zone, keeps a time window and hands the rest to matplotlib.

  What the script takes from outside (the file system, \<^verbatim>\<open>json.loads\<close>,
  \<^verbatim>\<open>datetime.fromisoformat\<close>, the \<^verbatim>\<open>TZ\<close> variable, the time-zone database and the
  wall clock) is collected in a record \<open>world\<close>; every raise and every \<^verbatim>\<open>sys.exit\<close> of
  the script is a value of the model. Python floats are idealised as exact rationals: the
  rounding of a quotient to a double is not part of the model, nor are NaN and the infinities. Instants are integers counting
  microseconds since the epoch, the resolution of \<^verbatim>\<open>datetime\<close>; the range limits of
  pandas timestamps are left out.
\<close>

subsection \<open>Values and exceptions\<close>

text \<open>
  What \<^verbatim>\<open>json.loads\<close> returns: \<^verbatim>\<open>None\<close>, a bool, an int, a float, a str, a list or
  a dict. A dict is kept as the pairs of the JSON object in the order of the text.
\<close>

datatype json =
    JNull
  | JBool bool
  | JInt int
  | JFloat rat
  | JStr string
  | JArr "json list"
  | JObj "(string \<times> json) list"

datatype exn =
    KeyError
  | ValueError
  | TypeError
  | AttributeError
  | ZeroDivisionError
  | InvalidTimeError

text \<open>Sequencing of two steps either of which may raise.\<close>

definition and_then :: "exn + 'a \<Rightarrow> ('a \<Rightarrow> exn + 'b) \<Rightarrow> exn + 'b" where
  "and_then m f = (case m of Inl e \<Rightarrow> Inl e | Inr x \<Rightarrow> f x)"

text \<open>
  \<^verbatim>\<open>v[k]\<close> for a string key \<open>k\<close>: a dict gives the value or raises \<^verbatim>\<open>KeyError\<close> (of a key
  that occurs twice in the JSON text the last value counts); every other JSON value raises
  \<^verbatim>\<open>TypeError\<close>.
\<close>

fun subscript :: "json \<Rightarrow> string \<Rightarrow> exn + json" where
  "subscript (JObj kvs) k = (case map_of (rev kvs) k of None \<Rightarrow> Inl KeyError | Some v \<Rightarrow> Inr v)"
| "subscript _ k = Inl TypeError"

text \<open>\<^verbatim>\<open>v.get(k, d)\<close>: only a dict has the method.\<close>

fun dict_get :: "json \<Rightarrow> string \<Rightarrow> json \<Rightarrow> exn + json" where
  "dict_get (JObj kvs) k d = (case map_of (rev kvs) k of None \<Rightarrow> Inr d | Some v \<Rightarrow> Inr v)"
| "dict_get _ k d = Inl AttributeError"

text \<open>\<^verbatim>\<open>s.replace("Z", "+00:00")\<close> on a str.\<close>

fun replace_Z :: "string \<Rightarrow> string" where
  "replace_Z [] = []"
| "replace_Z (c # cs) = (if c = CHR ''Z'' then ''+00:00'' @ replace_Z cs else c # replace_Z cs)"

text \<open>\<^verbatim>\<open>v.replace("Z", "+00:00")\<close> on a JSON value: only a str has the method.\<close>

fun str_replace_Z :: "json \<Rightarrow> exn + string" where
  "str_replace_Z (JStr s) = Inr (replace_Z s)"
| "str_replace_Z _ = Inl AttributeError"

text \<open>
  \<^verbatim>\<open>v * 8 / 1_000_000\<close>. An int, a float and a bool (an int in Python) are scaled. A str
  and a list are repeated eight times by \<^verbatim>\<open>*\<close> and then fail at \<^verbatim>\<open>/\<close>; \<^verbatim>\<open>None\<close> and
  a dict fail at \<^verbatim>\<open>*\<close>: all four raise \<^verbatim>\<open>TypeError\<close>.
\<close>

fun mbps :: "json \<Rightarrow> exn + rat" where
  "mbps (JInt n) = Inr (of_int (n * 8) / 1000000)"
| "mbps (JFloat x) = Inr (x * 8 / 1000000)"
| "mbps (JBool b) = Inr (of_int ((if b then 1 else 0) * 8) / 1000000)"
| "mbps _ = Inl TypeError"

subsection \<open>Timestamps and time zones\<close>

text \<open>
  A \<^verbatim>\<open>datetime\<close>: naive (a wall-clock reading, in microseconds) or aware (an instant, in
  microseconds since the epoch in UTC, and its UTC offset).
\<close>

datatype pydt = Naive int | Aware int int

fun is_aware :: "pydt \<Rightarrow> bool" where
  "is_aware (Aware t off) = True"
| "is_aware (Naive w) = False"

text \<open>The integer pandas stores for a value and compares by.\<close>

fun epoch_us :: "pydt \<Rightarrow> int" where
  "epoch_us (Aware t off) = t"
| "epoch_us (Naive w) = w"

fun same_offset :: "pydt \<Rightarrow> pydt \<Rightarrow> bool" where
  "same_offset (Aware t off) (Aware t' off') = (off = off')"
| "same_offset _ _ = False"

definition hour_us :: int where
  "hour_us = 3600000000"

definition day_us :: int where
  "day_us = 86400000000"

text \<open>
  A time zone of the database: the UTC offset in force at an instant, and the instant of a
  wall-clock reading, \<open>None\<close> where the reading does not exist or is ambiguous in the zone
  (pandas raises there).
\<close>

record zone =
  utcoffset :: "int \<Rightarrow> int"
  localize :: "int \<Rightarrow> int option"

definition fixed_zone :: "int \<Rightarrow> zone" where
  "fixed_zone off = \<lparr>utcoffset = (\<lambda>t. off), localize = (\<lambda>w. Some (w - off))\<rparr>"

text \<open>The wall-clock reading of an instant in a zone, and the number of its local day.\<close>

definition wall_clock :: "zone \<Rightarrow> int \<Rightarrow> int" where
  "wall_clock z t = t + utcoffset z t"

definition local_date :: "zone \<Rightarrow> int \<Rightarrow> int" where
  "local_date z t = wall_clock z t div day_us"

text \<open>
  \<^verbatim>\<open>normalize()\<close> of pandas: the wall-clock reading is cut to midnight and localized
  again in the zone.
\<close>

definition normalize :: "zone \<Rightarrow> int \<Rightarrow> int option" where
  "normalize z t = localize z (local_date z t * day_us)"

subsection \<open>The loader (lines 24 to 40)\<close>

record measurement =
  timestamp :: pydt
  download_mbps :: rat
  upload_mbps :: rat
  latency_ms :: json
  packet_loss_percent :: json

text \<open>The body of the \<^verbatim>\<open>try\<close>, in the order of the source.\<close>

definition parse_entry :: "(string \<Rightarrow> pydt option) \<Rightarrow> json \<Rightarrow> exn + measurement" where
  "parse_entry fromiso entry =
     and_then (subscript entry ''timestamp'') (\<lambda>tsv.
     and_then (str_replace_Z tsv) (\<lambda>s.
     and_then (case fromiso s of None \<Rightarrow> Inl ValueError | Some t \<Rightarrow> Inr t) (\<lambda>ts.
     and_then (and_then (and_then (subscript entry ''download'') (\<lambda>d. subscript d ''bandwidth'')) mbps)
       (\<lambda>download.
     and_then (and_then (and_then (subscript entry ''upload'') (\<lambda>u. subscript u ''bandwidth'')) mbps)
       (\<lambda>upload.
     and_then (and_then (subscript entry ''ping'') (\<lambda>p. subscript p ''latency'')) (\<lambda>ping.
     and_then (dict_get entry ''packetLoss'' (JInt 0)) (\<lambda>packet_loss.
       Inr \<lparr>timestamp = ts, download_mbps = download, upload_mbps = upload,
            latency_ms = ping, packet_loss_percent = packet_loss\<rparr>)))))))"

text \<open>
  The loop: \<^verbatim>\<open>except (KeyError, ValueError): continue\<close> skips the entry; any other
  exception leaves the loop and ends the run.
\<close>

fun load_records :: "(string \<Rightarrow> pydt option) \<Rightarrow> json list \<Rightarrow> exn + measurement list" where
  "load_records fromiso [] = Inr []"
| "load_records fromiso (entry # data) =
     (case parse_entry fromiso entry of
        Inl e \<Rightarrow>
          (if e = KeyError \<or> e = ValueError then load_records fromiso data else Inl e)
      | Inr r \<Rightarrow>
          (case load_records fromiso data of Inl e \<Rightarrow> Inl e | Inr records \<Rightarrow> Inr (r # records)))"

subsection \<open>The run and what it takes from outside\<close>

text \<open>
  \<open>open_file\<close> gives the lines of a file, each as what \<^verbatim>\<open>json.loads\<close> makes of it
  (\<open>None\<close> where it raises), or \<open>None\<close> when the file cannot be read. \<open>fromisoformat\<close> is
  \<^verbatim>\<open>datetime.fromisoformat\<close> (\<open>None\<close> for \<^verbatim>\<open>ValueError\<close>), \<open>zoneinfo\<close> is
  \<^verbatim>\<open>zoneinfo.ZoneInfo\<close> (\<open>None\<close> where it raises), \<open>environ_TZ\<close> the variable \<^verbatim>\<open>TZ\<close>
  and \<open>now\<close> the instant the clock shows.
\<close>

record world =
  open_file :: "string \<Rightarrow> json option list option"
  fromisoformat :: "string \<Rightarrow> pydt option"
  environ_TZ :: "string option"
  zoneinfo :: "string \<Rightarrow> zone option"
  now :: int

record args =
  filename :: string
  show_all :: bool
  height_px :: int
  width_px :: "int option"
  tz_override :: "string option"
  max_mbps :: "rat option"
  last_hours :: "int option"

text \<open>
  The chart matplotlib is asked to draw: the figure size in inches, the rows plotted, the top
  of the speed axis and, in fixed-width mode, the tick labels (\<open>Some t\<close> for the time of \<open>t\<close>
  as \<^verbatim>\<open>%H:%M\<close>, \<open>None\<close> for the empty label). The drawing and the PNG are matplotlib's.
\<close>

record plot =
  fig_width_in :: rat
  fig_height_in :: rat
  series :: "measurement list"
  speed_top :: "rat option"
  xticklabels :: "pydt option list option"

text \<open>
  How a run ends: \<open>Fatal m\<close> prints \<open>m\<close> to standard error and calls \<^verbatim>\<open>sys.exit(1)\<close>;
  \<open>Uncaught e\<close> is an exception nothing catches, so that the interpreter prints a traceback to
  standard error and exits with status 1; \<open>Image p\<close> is a run that gets through line 121 with
  the chart \<open>p\<close> and prints its data URI to standard output. That matplotlib draws the chart
  it is given is taken for granted.
\<close>

datatype outcome = Fatal string | Uncaught exn | Image plot

fun exit_code :: "outcome \<Rightarrow> nat" where
  "exit_code (Fatal m) = 1"
| "exit_code (Uncaught e) = 1"
| "exit_code (Image p) = 0"

fun stdout :: "outcome \<Rightarrow> plot list" where
  "stdout (Image p) = [p]"
| "stdout _ = []"


subsection \<open>Reading the file (lines 17 to 22)\<close>

text \<open>
  The comprehension raises at the first line that is not JSON, and \<^verbatim>\<open>except Exception\<close>
  ends the run. The message is the fixed part of the f-string; the text of the exception that
  follows it is left out.
\<close>

definition read_data :: "world \<Rightarrow> args \<Rightarrow> outcome + json list" where
  "read_data w a =
     (case open_file w (filename a) of
        None \<Rightarrow> Inl (Fatal ''Error reading file: '')
      | Some lines \<Rightarrow>
          (case those lines of
             None \<Rightarrow> Inl (Fatal ''Error reading file: '')
           | Some data \<Rightarrow> Inr data))"

subsection \<open>The data frame (lines 42 to 51)\<close>

text \<open>
  \<^verbatim>\<open>pd.DataFrame(records).sort_values("timestamp")\<close>. Without records the frame has no
  column and \<^verbatim>\<open>sort_values\<close> raises \<^verbatim>\<open>KeyError\<close>. Naive and aware values together make
  a column of Python objects, and sorting it compares a naive with an aware \<^verbatim>\<open>datetime\<close>,
  which raises \<^verbatim>\<open>TypeError\<close>. Both are outside every \<^verbatim>\<open>try\<close>. Rows of equal
  time keep their order here.
\<close>

definition sort_values :: "measurement list \<Rightarrow> exn + measurement list" where
  "sort_values records =
     (if records = [] then Inl KeyError
      else if list_ex (\<lambda>r. is_aware (timestamp r)) records
              \<and> list_ex (\<lambda>r. \<not> is_aware (timestamp r)) records then Inl TypeError
      else Inr (sort_key (\<lambda>r. epoch_us (timestamp r)) records))"

text \<open>\<^verbatim>\<open>tz_name = tz_override or os.environ.get("TZ", "UTC")\<close>: an empty string is false.\<close>

definition tz_name :: "world \<Rightarrow> args \<Rightarrow> string" where
  "tz_name w a =
     (let ambient = (case environ_TZ w of None \<Rightarrow> ''UTC'' | Some v \<Rightarrow> v)
      in case tz_override a of
           None \<Rightarrow> ambient
         | Some s \<Rightarrow> (if s = [] then ambient else s))"

definition to_zone :: "zone \<Rightarrow> measurement \<Rightarrow> measurement" where
  "to_zone z r =
     r\<lparr>timestamp := Aware (epoch_us (timestamp r)) (utcoffset z (epoch_us (timestamp r)))\<rparr>"

text \<open>
  \<^verbatim>\<open>df["timestamp"].dt.tz_convert(tzinfo)\<close>. The column is a datetime column with a time
  zone only when all values are aware with one offset. A column of naive values raises
  \<^verbatim>\<open>TypeError\<close>; a column of objects (aware values of several offsets) has no \<^verbatim>\<open>.dt\<close>
  and raises \<^verbatim>\<open>AttributeError\<close>.
\<close>

fun tz_convert :: "zone \<Rightarrow> measurement list \<Rightarrow> exn + measurement list" where
  "tz_convert z [] = Inl AttributeError"
| "tz_convert z (r # rs) =
     (if list_all (\<lambda>r'. same_offset (timestamp r) (timestamp r')) (r # rs)
      then Inr (map (to_zone z) (r # rs))
      else if is_aware (timestamp r) then Inl AttributeError
      else Inl TypeError)"

text \<open>
  Lines 17 to 51. The \<^verbatim>\<open>try\<close> of lines 46 to 51 catches whatever \<^verbatim>\<open>ZoneInfo\<close> or
  \<^verbatim>\<open>tz_convert\<close> raises and reports the time-zone name.
\<close>

definition frame :: "world \<Rightarrow> args \<Rightarrow> outcome + zone \<times> measurement list" where
  "frame w a =
     (case read_data w a of
        Inl out \<Rightarrow> Inl out
      | Inr data \<Rightarrow>
     (case load_records (fromisoformat w) data of
        Inl e \<Rightarrow> Inl (Uncaught e)
      | Inr records \<Rightarrow>
     (case sort_values records of
        Inl e \<Rightarrow> Inl (Uncaught e)
      | Inr df \<Rightarrow>
     (case zoneinfo w (tz_name w a) of
        None \<Rightarrow> Inl (Fatal (''Invalid TZ setting: '' @ tz_name w a))
      | Some z \<Rightarrow>
     (case tz_convert z df of
        Inl e \<Rightarrow> Inl (Fatal (''Invalid TZ setting: '' @ tz_name w a))
      | Inr df' \<Rightarrow> Inr (z, df'))))))"

subsection \<open>The time window (lines 53 to 60)\<close>

text \<open>
  \<^verbatim>\<open>df[df["timestamp"].dt.normalize() == today]\<close>: every row is normalized (a reading
  that cannot be localized raises), and the rows whose midnight is \<open>today\<close> are kept.
\<close>

fun keep_today :: "zone \<Rightarrow> int \<Rightarrow> measurement list \<Rightarrow> measurement list option" where
  "keep_today z today [] = Some []"
| "keep_today z today (r # rs) =
     (case normalize z (epoch_us (timestamp r)) of
        None \<Rightarrow> None
      | Some d \<Rightarrow>
          (case keep_today z today rs of
             None \<Rightarrow> None
           | Some rs' \<Rightarrow> Some (if d = today then r # rs' else rs')))"

text \<open>The \<^verbatim>\<open>elif not show_all\<close> and the implicit \<^verbatim>\<open>else\<close>.\<close>

definition today_or_all :: "zone \<Rightarrow> int \<Rightarrow> args \<Rightarrow> measurement list \<Rightarrow> exn + measurement list" where
  "today_or_all z t a df =
     (if \<not> show_all a then
        (case normalize z t of
           None \<Rightarrow> Inl InvalidTimeError
         | Some today \<Rightarrow>
             (case keep_today z today df of
                None \<Rightarrow> Inl InvalidTimeError
              | Some df' \<Rightarrow> Inr df'))
      else Inr df)"

text \<open>\<^verbatim>\<open>if last_hours:\<close> is false for \<^verbatim>\<open>None\<close> and for 0.\<close>

definition filter_rows :: "zone \<Rightarrow> int \<Rightarrow> args \<Rightarrow> measurement list \<Rightarrow> exn + measurement list" where
  "filter_rows z t a df =
     (case last_hours a of
        None \<Rightarrow> today_or_all z t a df
      | Some n \<Rightarrow>
          (if n \<noteq> 0
           then Inr (filter (\<lambda>r. t - n * hour_us \<le> epoch_us (timestamp r)) df)
           else today_or_all z t a df))"

definition filtered :: "world \<Rightarrow> args \<Rightarrow> outcome + measurement list" where
  "filtered w a =
     (case frame w a of
        Inl out \<Rightarrow> Inl out
      | Inr (z, df) \<Rightarrow>
          (case filter_rows z (now w) a df of
             Inl e \<Rightarrow> Inl (Uncaught e)
           | Inr df' \<Rightarrow> Inr df'))"

subsection \<open>The chart (lines 66 to 121)\<close>

text \<open>\<^verbatim>\<open>int(width_px / 80)\<close>: \<^verbatim>\<open>int\<close> cuts towards zero.\<close>

definition max_labels_of :: "int \<Rightarrow> int" where
  "max_labels_of width = (if 0 \<le> width then width div 80 else - ((- width) div 80))"

text \<open>
  Lines 114 to 120. \<^verbatim>\<open>label_count / max_labels\<close> divides two Python ints and raises
  \<^verbatim>\<open>ZeroDivisionError\<close> when \<^verbatim>\<open>max_labels\<close> is 0; so does \<^verbatim>\<open>i % interval\<close> when
  \<^verbatim>\<open>interval\<close> is 0 and there is a label to go through.
\<close>

definition visible_labels :: "int \<Rightarrow> 'a list \<Rightarrow> exn + 'a option list" where
  "visible_labels width x_labels =
     (let label_count = int (length x_labels);
          max_labels = max_labels_of width
      in if label_count > max_labels then
           (if max_labels = 0 then Inl ZeroDivisionError
            else
              (let interval = \<lceil>(of_int label_count :: rat) / of_int max_labels\<rceil>
               in if interval = 0 \<and> x_labels \<noteq> [] then Inl ZeroDivisionError
                  else Inr (map (\<lambda>(i, ts). if int i mod interval = 0 then Some ts else None)
                             (enumerate 0 x_labels))))
         else Inr (map Some x_labels))"

text \<open>
  Lines 66 to 121 with what matplotlib is told. \<^verbatim>\<open>if width_px:\<close> and
  \<^verbatim>\<open>max_mbps if max_mbps else None\<close> are false for \<^verbatim>\<open>None\<close> and for 0.
  \<^verbatim>\<open>plt.subplots\<close> refuses a negative figure size with \<^verbatim>\<open>ValueError\<close>.
\<close>

definition chart :: "args \<Rightarrow> measurement list \<Rightarrow> exn + plot" where
  "chart a df =
     (let fixed_width = (case width_px a of None \<Rightarrow> 0 | Some px \<Rightarrow> px);
          fig_h = of_int (height_px a) / 100;
          fig_w = (if fixed_width \<noteq> 0 then of_int fixed_width / 100
                   else max 10 (of_nat (length df) * (1 / 2)));
          top = (case max_mbps a of None \<Rightarrow> None | Some m \<Rightarrow> if m \<noteq> 0 then Some m else None)
      in if fig_w < 0 \<or> fig_h < 0 then Inl ValueError
         else if fixed_width \<noteq> 0 then
           (case visible_labels fixed_width (map timestamp df) of
              Inl e \<Rightarrow> Inl e
            | Inr labels \<Rightarrow>
                Inr \<lparr>fig_width_in = fig_w, fig_height_in = fig_h, series = df,
                     speed_top = top, xticklabels = Some labels\<rparr>)
         else
           Inr \<lparr>fig_width_in = fig_w, fig_height_in = fig_h, series = df,
                speed_top = top, xticklabels = None\<rparr>)"

subsection \<open>The whole run\<close>

definition main :: "world \<Rightarrow> args \<Rightarrow> outcome" where
  "main w a =
     (case filtered w a of
        Inl out \<Rightarrow> out
      | Inr df \<Rightarrow>
          (if df = [] then Fatal ''No data to plot''
           else (case chart a df of Inl e \<Rightarrow> Uncaught e | Inr p \<Rightarrow> Image p)))"

subsection \<open>Notions of the specification\<close>











subsection \<open>A sample environment\<close>

text \<open>
  Entries of the shape the speed test writes, a few files, a clock at 13:00 UTC on
  1 January 2024 (1704114000 seconds after the epoch) and the two zones UTC and Asia/Tokyo,
  which keep one offset.
\<close>

definition speedtest_entry :: "string \<Rightarrow> json \<Rightarrow> json \<Rightarrow> json" where
  "speedtest_entry ts bandwidth latency =
     JObj [(''timestamp'', JStr ts),
           (''download'', JObj [(''bandwidth'', bandwidth)]),
           (''upload'', JObj [(''bandwidth'', JInt 2500000)]),
           (''ping'', JObj [(''latency'', latency)])]"

definition at_10 :: json where
  "at_10 = speedtest_entry ''2024-01-01T10:00:00Z'' (JInt 12500000) (JFloat 8)"

definition at_12 :: json where
  "at_12 = speedtest_entry ''2024-01-01T12:00:00Z'' (JInt 12500000) (JFloat 9)"

definition at_old :: json where
  "at_old = speedtest_entry ''2023-12-29T10:00:00Z'' (JInt 12500000) (JFloat 7)"

definition naive_11 :: json where
  "naive_11 = speedtest_entry ''2024-01-01T11:00:00'' (JInt 12500000) (JFloat 9)"

definition text_latency :: json where
  "text_latency = speedtest_entry ''2024-01-01T12:00:00Z'' (JInt 12500000) (JStr ''high'')"

definition text_bandwidth :: json where
  "text_bandwidth = speedtest_entry ''2024-01-01T12:00:00Z'' (JStr ''fast'') (JFloat 9)"

definition no_download :: json where
  "no_download =
     JObj [(''timestamp'', JStr ''2024-01-01T12:00:00Z''),
           (''upload'', JObj [(''bandwidth'', JInt 2500000)]),
           (''ping'', JObj [(''latency'', JFloat 9)])]"

definition sample_fromisoformat :: "string \<Rightarrow> pydt option" where
  "sample_fromisoformat =
     map_of [(''2023-12-29T10:00:00+00:00'', Aware 1703844000000000 0),
             (''2024-01-01T10:00:00+00:00'', Aware 1704103200000000 0),
             (''2024-01-01T12:00:00+00:00'', Aware 1704110400000000 0),
             (''2024-01-01T11:00:00'', Naive 1704106800000000)]"

definition sample_files :: "string \<Rightarrow> json option list option" where
  "sample_files =
     map_of [(''day.json'', [Some at_10, Some at_12]),
             (''week.json'', [Some at_10, Some at_old]),
             (''one.json'', [Some at_10]),
             (''empty.json'', []),
             (''broken.json'', [Some naive_11, None]),
             (''naive.json'', [Some naive_11]),
             (''mixed.json'', [Some at_10, Some naive_11]),
             (''latency.json'', [Some at_10, Some text_latency]),
             (''bandwidth.json'', [Some at_10, Some text_bandwidth]),
             (''nokey.json'', [Some at_10, Some no_download])]"

definition sample_world :: world where
  "sample_world =
     \<lparr>open_file = sample_files,
      fromisoformat = sample_fromisoformat,
      environ_TZ = None,
      zoneinfo = map_of [(''UTC'', fixed_zone 0), (''Asia/Tokyo'', fixed_zone (9 * hour_us))],
      now = 1704114000000000\<rparr>"

definition sample_args :: "string \<Rightarrow> args" where
  "sample_args file =
     \<lparr>filename = file, show_all = False, height_px = 300, width_px = None,
      tz_override = None, max_mbps = None, last_hours = None\<rparr>"

definition row_old :: measurement where
  "row_old =
     \<lparr>timestamp = Aware 1703844000000000 0, download_mbps = 100, upload_mbps = 20,
      latency_ms = JFloat 7, packet_loss_percent = JInt 0\<rparr>"

definition row_naive :: measurement where
  "row_naive =
     \<lparr>timestamp = Naive 1704106800000000, download_mbps = 100, upload_mbps = 20,
      latency_ms = JFloat 9, packet_loss_percent = JInt 0\<rparr>"

definition row_10 :: measurement where
  "row_10 =
     \<lparr>timestamp = Aware 1704103200000000 0, download_mbps = 100, upload_mbps = 20,
      latency_ms = JFloat 8, packet_loss_percent = JInt 0\<rparr>"

definition row_12 :: measurement where
  "row_12 =
     \<lparr>timestamp = Aware 1704110400000000 0, download_mbps = 100, upload_mbps = 20,
      latency_ms = JFloat 9, packet_loss_percent = JInt 0\<rparr>"

section \<open>Properties\<close>

subsection \<open>Auxiliary facts\<close>

lemmas sample_defs = sample_world_def sample_args_def sample_files_def sample_fromisoformat_def
  at_10_def at_12_def at_old_def naive_11_def text_latency_def text_bandwidth_def no_download_def
  speedtest_entry_def row_10_def row_12_def row_old_def row_naive_def fixed_zone_def hour_us_def
  day_us_def

lemmas run_defs = main_def filtered_def frame_def read_data_def parse_entry_def and_then_def
  sort_values_def tz_name_def to_zone_def filter_rows_def today_or_all_def normalize_def
  local_date_def wall_clock_def chart_def visible_labels_def max_labels_of_def


lemma those_map_Some: "those xs = Some ys \<Longrightarrow> xs = map Some ys"
  by (induction xs arbitrary: ys) (auto split: option.splits)


text \<open>How a failure of an early stage shows in the run.\<close>

lemma main_of_frame_Inl: "frame w a = Inl out \<Longrightarrow> main w a = out"
  by (simp add: main_def filtered_def)



lemma main_of_filtered_empty: "filtered w a = Inr [] \<Longrightarrow> main w a = Fatal ''No data to plot''"
  by (simp add: main_def)

lemma main_of_no_records:
  assumes "read_data w a = Inr data" and "load_records (fromisoformat w) data = Inr []"
  shows "main w a = Uncaught KeyError"
  using assms by (simp add: main_def filtered_def frame_def sort_values_def)


lemma failure_observed:
  assumes "out = Fatal m \<or> out = Uncaught e"
  shows "exit_code out = 1 \<and> stdout out = []"
  using assms by auto









lemma load_records_mem:
  assumes "load_records fromiso data = Inr records" and "entry \<in> set data"
    and "parse_entry fromiso entry = Inr r"
  shows "r \<in> set records"
  using assms by (induction data arbitrary: records) (auto split: sum.splits if_splits)


text \<open>Columns of naive timestamps.\<close>

lemma tz_convert_naive:
  assumes "df \<noteq> []" and "list_all (\<lambda>r. \<not> is_aware (timestamp r)) df"
  shows "tz_convert z df = Inl TypeError"
proof -
  from assms(1) obtain r rs where df: "df = r # rs" by (cases df) auto
  with assms(2) obtain wall where "timestamp r = Naive wall" by (cases "timestamp r") auto
  then show ?thesis using df by simp
qed

lemma sort_values_naive:
  assumes "records \<noteq> []" and "list_all (\<lambda>r. \<not> is_aware (timestamp r)) records"
  shows "\<exists>df. sort_values records = Inr df \<and> df \<noteq> []
              \<and> list_all (\<lambda>r. \<not> is_aware (timestamp r)) df"
proof -
  have "\<not> list_ex (\<lambda>r. is_aware (timestamp r)) records"
    using assms(2) by (auto simp: list_all_iff list_ex_iff)
  then have "sort_values records = Inr (sort_key (\<lambda>r. epoch_us (timestamp r)) records)"
    using assms(1) by (simp add: sort_values_def)
  moreover have "sort_key (\<lambda>r. epoch_us (timestamp r)) records \<noteq> []"
    using assms(1) by (metis length_sort length_0_conv)
  moreover have "list_all (\<lambda>r. \<not> is_aware (timestamp r)) (sort_key (\<lambda>r. epoch_us (timestamp r)) records)"
    using assms(2) by (simp add: list_all_iff)
  ultimately show ?thesis by blast
qed

lemma sort_values_with_naive:
  assumes "r \<in> set records" and "\<not> is_aware (timestamp r)"
  shows "sort_values records = Inl TypeError
         \<or> (records \<noteq> [] \<and> list_all (\<lambda>r. \<not> is_aware (timestamp r)) records)"
proof (cases "list_ex (\<lambda>r. is_aware (timestamp r)) records")
  case True
  moreover have "list_ex (\<lambda>r. \<not> is_aware (timestamp r)) records"
    using assms by (auto simp: list_ex_iff)
  moreover have "records \<noteq> []" using assms(1) by auto
  ultimately show ?thesis by (simp add: sort_values_def)
next
  case False
  then have "list_all (\<lambda>r. \<not> is_aware (timestamp r)) records"
    by (auto simp: list_all_iff list_ex_iff)
  moreover have "records \<noteq> []" using assms(1) by auto
  ultimately show ?thesis by simp
qed

lemma frame_all_naive:
  assumes "read_data w a = Inr data" and "load_records (fromisoformat w) data = Inr records"
    and "records \<noteq> []" and "list_all (\<lambda>r. \<not> is_aware (timestamp r)) records"
  shows "frame w a = Inl (Fatal (''Invalid TZ setting: '' @ tz_name w a))"
proof -
  from sort_values_naive [OF assms(3,4)] obtain df where
    df: "sort_values records = Inr df" "df \<noteq> []" "list_all (\<lambda>r. \<not> is_aware (timestamp r)) df"
    by blast
  show ?thesis
    using assms(1,2) df(1) tz_convert_naive [OF df(2,3)]
    by (simp add: frame_def split: option.splits)
qed









text \<open>The stride of the tick labels when fewer than 80 pixels are given.\<close>

lemma visible_labels_narrow:
  assumes "0 < width" and "width < 80" and "x_labels \<noteq> []"
  shows "visible_labels width x_labels = Inl ZeroDivisionError"
  using assms by (simp add: visible_labels_def max_labels_of_def)


lemma sample_parse_naive: "parse_entry (fromisoformat sample_world) naive_11 = Inr row_naive"
  by (simp add: sample_defs parse_entry_def and_then_def)



lemma sample_empty_file: "read_data sample_world (sample_args ''empty.json'') = Inr []"
  by (simp add: read_data_def sample_world_def sample_args_def sample_files_def)

lemma sample_empty_window:
  "filtered (sample_world\<lparr>now := 1704121200000000\<rparr>)
     ((sample_args ''day.json'')\<lparr>last_hours := Some 2\<rparr>) = Inr []"
  by (simp add: sample_defs run_defs)



subsection \<open>Entries the loader skips\<close>




subsection \<open>Tick labels of a narrow chart\<close>

text \<open>
  Claim C2 asks that the stride of the tick labels is computed without a division by zero for
  a data set of one point and any width. With one row in the window and a width of 50 pixels
  \<^verbatim>\<open>max_labels\<close> is 0, line 117 divides by it and the run ends with an uncaught
  \<^verbatim>\<open>ZeroDivisionError\<close>.
\<close>

theorem narrow_width_divides_by_zero:
  "filtered sample_world ((sample_args ''one.json'')\<lparr>width_px := Some 50\<rparr>) = Inr [row_10]
   \<and> visible_labels 50 (map timestamp [row_10]) = Inl ZeroDivisionError
   \<and> main sample_world ((sample_args ''one.json'')\<lparr>width_px := Some 50\<rparr>)
     = Uncaught ZeroDivisionError"
  by (simp add: sample_defs run_defs)

subsection \<open>The window of the last hours\<close>




subsection \<open>The window of today\<close>



subsection \<open>The name of the time zone\<close>




subsection \<open>Nothing to plot\<close>

text \<open>
  Claim C6. When no record is left after filtering, the run ends with exit code 1 and prints
  no image: with rows in the frame and none in the window through the message
  \<^verbatim>\<open>No data to plot\<close>, and without any loaded record (an empty file among others) through
  the \<^verbatim>\<open>KeyError\<close> that \<^verbatim>\<open>sort_values\<close> raises on a frame without columns.
\<close>

theorem empty_result_exits_1:
  assumes "filtered w a = Inr []
           \<or> (read_data w a = Inr data \<and> load_records (fromisoformat w) data = Inr [])"
  shows "(main w a = Fatal ''No data to plot'' \<or> main w a = Uncaught KeyError)
         \<and> exit_code (main w a) = 1 \<and> stdout (main w a) = []"
proof -
  have "main w a = Fatal ''No data to plot'' \<or> main w a = Uncaught KeyError"
    using assms main_of_filtered_empty main_of_no_records by blast
  then show ?thesis by auto
qed

theorem empty_result_exits_1_witness:
  "(read_data sample_world (sample_args ''empty.json'') = Inr []
    \<and> load_records (fromisoformat sample_world) [] = Inr []
    \<and> main sample_world (sample_args ''empty.json'') = Uncaught KeyError
    \<and> exit_code (main sample_world (sample_args ''empty.json'')) = 1
    \<and> stdout (main sample_world (sample_args ''empty.json'')) = [])
   \<and> (filtered (sample_world\<lparr>now := 1704121200000000\<rparr>)
         ((sample_args ''day.json'')\<lparr>last_hours := Some 2\<rparr>) = Inr []
    \<and> main (sample_world\<lparr>now := 1704121200000000\<rparr>)
         ((sample_args ''day.json'')\<lparr>last_hours := Some 2\<rparr>) = Fatal ''No data to plot''
    \<and> exit_code (main (sample_world\<lparr>now := 1704121200000000\<rparr>)
         ((sample_args ''day.json'')\<lparr>last_hours := Some 2\<rparr>)) = 1
    \<and> stdout (main (sample_world\<lparr>now := 1704121200000000\<rparr>)
         ((sample_args ''day.json'')\<lparr>last_hours := Some 2\<rparr>)) = [])"
proof -
  have e: "read_data sample_world (sample_args ''empty.json'') = Inr []
           \<and> load_records (fromisoformat sample_world) [] = Inr []"
    using sample_empty_file by simp
  have k: "main sample_world (sample_args ''empty.json'') = Uncaught KeyError"
    using e by (simp add: main_of_no_records)
  have m: "main (sample_world\<lparr>now := 1704121200000000\<rparr>)
         ((sample_args ''day.json'')\<lparr>last_hours := Some 2\<rparr>) = Fatal ''No data to plot''"
    using sample_empty_window by (simp add: main_of_filtered_empty)
  show ?thesis
    using empty_result_exits_1 [of sample_world "sample_args ''empty.json''" "[]", OF disjI2, OF e]
      empty_result_exits_1 [of "sample_world\<lparr>now := 1704121200000000\<rparr>"
        "(sample_args ''day.json'')\<lparr>last_hours := Some 2\<rparr>", OF disjI1, OF sample_empty_window]
      e k m sample_empty_window
    by simp
qed

subsection \<open>A line that is not JSON\<close>



subsection \<open>Megabits per second\<close>



subsection \<open>Running twice\<close>




subsection \<open>Timestamps without an offset\<close>

text \<open>
  Claim C10, as the code has it. When a line of the input loads as a record with a naive
  timestamp, the run ends with exit code 1 and prints no image, so that the record is not
  skipped; when all lines load and every loaded record is naive, it ends at line 50 with the
  message of an invalid time zone.
\<close>

theorem naive_timestamp_aborts:
  assumes opened: "open_file w (filename a) = Some lines" and line: "Some entry \<in> set lines"
    and parsed: "parse_entry (fromisoformat w) entry = Inr r"
    and naive: "\<not> is_aware (timestamp r)"
  shows "exit_code (main w a) = 1 \<and> stdout (main w a) = []
         \<and> (\<forall>data records.
               read_data w a = Inr data \<and> load_records (fromisoformat w) data = Inr records
               \<and> list_all (\<lambda>r. \<not> is_aware (timestamp r)) records
               \<longrightarrow> main w a = Fatal (''Invalid TZ setting: '' @ tz_name w a))"
proof -
  have first: "\<exists>m e. main w a = Fatal m \<or> main w a = Uncaught e"
  proof (cases "those lines")
    case None
    then have "frame w a = Inl (Fatal ''Error reading file: '')"
      using opened by (simp add: frame_def read_data_def)
    then show ?thesis using main_of_frame_Inl by blast
  next
    case (Some data)
    then have rd: "read_data w a = Inr data" using opened by (simp add: read_data_def)
    have mem: "entry \<in> set data" using those_map_Some [OF Some] line by auto
    show ?thesis
    proof (cases "load_records (fromisoformat w) data")
      case (Inl e)
      then have "frame w a = Inl (Uncaught e)" using rd by (simp add: frame_def)
      then show ?thesis using main_of_frame_Inl by blast
    next
      case (Inr records)
      have r: "r \<in> set records" using load_records_mem [OF Inr mem parsed] .
      from sort_values_with_naive [OF r naive] show ?thesis
      proof
        assume "sort_values records = Inl TypeError"
        then have "frame w a = Inl (Uncaught TypeError)" using rd Inr by (simp add: frame_def)
        then show ?thesis using main_of_frame_Inl by blast
      next
        assume "records \<noteq> [] \<and> list_all (\<lambda>r. \<not> is_aware (timestamp r)) records"
        then have "frame w a = Inl (Fatal (''Invalid TZ setting: '' @ tz_name w a))"
          using frame_all_naive [OF rd Inr] by simp
        then show ?thesis using main_of_frame_Inl by blast
      qed
    qed
  qed
  have second: "main w a = Fatal (''Invalid TZ setting: '' @ tz_name w a)"
    if "read_data w a = Inr data" and l: "load_records (fromisoformat w) data = Inr records"
      and n: "list_all (\<lambda>r. \<not> is_aware (timestamp r)) records" for data records
  proof -
    have "those lines = Some data" using that(1) opened
      by (auto simp: read_data_def split: option.splits)
    then have "entry \<in> set data" using those_map_Some line by fastforce
    then have "records \<noteq> []" using load_records_mem [OF l _ parsed] by auto
    then show ?thesis using frame_all_naive [OF that(1) l _ n] main_of_frame_Inl by blast
  qed
  from first second show ?thesis using failure_observed by blast
qed

theorem naive_timestamp_aborts_witness:
  "open_file sample_world (filename (sample_args ''naive.json'')) = Some [Some naive_11]
   \<and> Some naive_11 \<in> set [Some naive_11]
   \<and> parse_entry (fromisoformat sample_world) naive_11 = Inr row_naive
   \<and> \<not> is_aware (timestamp row_naive)
   \<and> exit_code (main sample_world (sample_args ''naive.json'')) = 1
   \<and> stdout (main sample_world (sample_args ''naive.json'')) = []
   \<and> main sample_world (sample_args ''naive.json'') = Fatal ''Invalid TZ setting: UTC''"
proof -
  have f: "open_file sample_world (filename (sample_args ''naive.json'')) = Some [Some naive_11]"
    by (simp add: sample_world_def sample_args_def sample_files_def)
  have m: "Some naive_11 \<in> set [Some naive_11]" by simp
  have n: "\<not> is_aware (timestamp row_naive)" by (simp add: row_naive_def)
  have rd: "read_data sample_world (sample_args ''naive.json'') = Inr [naive_11]"
    using f by (simp add: read_data_def)
  have ld: "load_records (fromisoformat sample_world) [naive_11] = Inr [row_naive]"
    using sample_parse_naive by simp
  have tz: "tz_name sample_world (sample_args ''naive.json'') = ''UTC''"
    by (simp add: tz_name_def sample_world_def sample_args_def)
  from naive_timestamp_aborts [OF f m sample_parse_naive n]
  have "exit_code (main sample_world (sample_args ''naive.json'')) = 1
        \<and> stdout (main sample_world (sample_args ''naive.json'')) = []
        \<and> main sample_world (sample_args ''naive.json'') = Fatal ''Invalid TZ setting: UTC''"
    using rd ld n tz by simp
  then show ?thesis using f m sample_parse_naive n by simp
qed

text \<open>
  Claim C10 as stated sends every such run through the message of line 50. A file that also
  has a line that is not JSON ends at line 21, and a file with a naive and an aware record
  ends with the uncaught \<^verbatim>\<open>TypeError\<close> of \<^verbatim>\<open>sort_values\<close> in line 43.
\<close>

theorem naive_abort_on_other_paths:
  "open_file sample_world (filename (sample_args ''broken.json'')) = Some [Some naive_11, None]
   \<and> open_file sample_world (filename (sample_args ''mixed.json'')) = Some [Some at_10, Some naive_11]
   \<and> parse_entry (fromisoformat sample_world) naive_11 = Inr row_naive
   \<and> \<not> is_aware (timestamp row_naive)
   \<and> main sample_world (sample_args ''broken.json'') = Fatal ''Error reading file: ''
   \<and> main sample_world (sample_args ''mixed.json'') = Uncaught TypeError"
  by (simp add: sample_defs run_defs)

end
